theory Spec2Isabelle
  imports Complex_Main "HOL-Library.Code_Target_Numeral"
begin

section \<open>Data model\<close>

text \<open>
  The repository is JavaScript: a mock persistence service (\<^verbatim>\<open>courseService.js\<close>) and a
  page (\<^verbatim>\<open>Grades.jsx\<close>) that computes weighted grades. JavaScript objects carry no
  types; the model gives each property the type the repository uses it at.

  \<^item> Grades and weights are JavaScript numbers, that is IEEE 754 double precision
    values. They are modelled by \<open>jsnumber\<close>, and every sum, product and quotient is
    rounded to the nearest double as the machine does it.
  \<^item> \<^verbatim>\<open>Id\<close> and \<^verbatim>\<open>courseId\<close> are JavaScript numbers holding integers. They are
    modelled as \<open>int\<close>; the sum the code computes on them (\<^verbatim>\<open>maxId + 1\<close>) and the
    integer that \<^verbatim>\<open>parseInt\<close> reads are rounded to the nearest double. An integer
    that no double holds (\<open>2\<^sup>5\<^sup>3 + 1\<close> is the first) is the Id of no record. The
    property \<^verbatim>\<open>Id\<close> is the field \<open>Id'\<close> (HOL has a constant \<open>Id\<close> already).
  \<^item> Every property of a course other than \<^verbatim>\<open>Id\<close> and \<^verbatim>\<open>gradeCategories\<close> is an
    opaque JSON value to this code; such properties are kept in a finite map from
    property names to JSON values. The order of an object's properties is not modelled:
    no operation here depends on it.
\<close>

subsection \<open>JavaScript numbers\<close>

text \<open>
  A number is a finite double, an infinity or \<^verbatim>\<open>NaN\<close>. \<open>Fin x\<close> stands for the double
  whose value is the rational \<open>x\<close>; it is a number only for an \<open>x\<close> that a double can
  hold, and the operations below return such values. The two zeros \<^verbatim>\<open>+0\<close> and
  \<^verbatim>\<open>-0\<close> are one value \<open>Fin 0\<close>: the code never divides by a zero it has computed, and
  a zero is shown as \<^verbatim>\<open>0\<close> whatever its sign, which is all that tells them apart.
\<close>

datatype jsnumber = Fin rat | PInf | NInf | NaN

text \<open>The integer nearest to \<open>q\<close>, the even one of two that are equally near.\<close>

definition roundHalfEven :: "rat \<Rightarrow> int" where
  "roundHalfEven q =
     (if q - of_int \<lfloor>q\<rfloor> < 1 / 2 then \<lfloor>q\<rfloor>
      else if 1 / 2 < q - of_int \<lfloor>q\<rfloor> then \<lfloor>q\<rfloor> + 1
      else if even \<lfloor>q\<rfloor> then \<lfloor>q\<rfloor>
      else \<lfloor>q\<rfloor> + 1)"

text \<open>The number of binary digits of a positive integer.\<close>

function bitLength :: "int \<Rightarrow> int" where
  "bitLength n = (if n \<le> 0 then 0 else 1 + bitLength (n div 2))"
  by pat_completeness auto
termination
  by (relation "measure nat") auto

declare bitLength.simps [simp del]

text \<open>For a positive \<open>a\<close>, the exponent \<open>e\<close> with \<open>2\<^sup>e \<le> a < 2\<^sup>e\<^sup>+\<^sup>1\<close>.\<close>

definition ilog2 :: "rat \<Rightarrow> int" where
  "ilog2 a = (if 1 \<le> a then bitLength \<lfloor>a\<rfloor> - 1 else - bitLength (\<lceil>1 / a\<rceil> - 1))"

definition pow2 :: "int \<Rightarrow> rat" where
  "pow2 k = (if 0 \<le> k then 2 ^ nat k else 1 / 2 ^ nat (- k))"

text \<open>
  The distance between neighbouring doubles at the size of a positive \<open>a\<close>: 52 binary
  digits below the leading one, and \<open>2\<^sup>-\<^sup>1\<^sup>0\<^sup>7\<^sup>4\<close> for the subnormal values.
\<close>

definition ulp :: "rat \<Rightarrow> rat" where
  "ulp a = pow2 (max (ilog2 a) (- 1022) - 52)"

text \<open>The multiple of \<open>ulp a\<close> nearest to a positive \<open>a\<close>, ties to the even multiple.\<close>

definition nearest :: "rat \<Rightarrow> rat" where
  "nearest a = of_int (roundHalfEven (a / ulp a)) * ulp a"

text \<open>
  The double that a real result \<open>x\<close> is rounded to (round to nearest, ties to even); a
  result that rounds to \<open>2\<^sup>1\<^sup>0\<^sup>2\<^sup>4\<close> or beyond overflows to an infinity.
\<close>

definition round64 :: "rat \<Rightarrow> jsnumber" where
  "round64 x =
     (if x = 0 then Fin 0
      else if pow2 1024 \<le> nearest \<bar>x\<bar> then (if 0 < x then PInf else NInf)
      else Fin (if 0 < x then nearest \<bar>x\<bar> else - nearest \<bar>x\<bar>))"

text \<open>
  The double nearest to an integer \<open>n\<close>, as an integer: what an integer result is
  rounded to (below the overflow bound). Every integer up to \<open>2\<^sup>5\<^sup>3\<close> in size is a
  double; beyond that the doubles are 2 or more apart (\<open>2\<^sup>5\<^sup>3 + 1\<close> is rounded to
  \<open>2\<^sup>5\<^sup>3\<close>).
\<close>

definition nearestDouble :: "int \<Rightarrow> int" where
  "nearestDouble n =
     (if \<bar>n\<bar> \<le> 2 ^ 53 then n
      else if 0 < n then \<lfloor>nearest (of_int n)\<rfloor>
      else - \<lfloor>nearest (of_int (- n))\<rfloor>)"

text \<open>The integers that are doubles: an \<^verbatim>\<open>Id\<close> a JavaScript value can hold.\<close>

definition isDouble :: "int \<Rightarrow> bool" where
  "isDouble n = (\<bar>n\<bar> < 2 ^ 1024 \<and> nearestDouble n = n)"

text \<open>\<^verbatim>\<open>a + b\<close>, \<^verbatim>\<open>a * b\<close> and \<^verbatim>\<open>a / b\<close> on numbers.\<close>

definition js_add :: "jsnumber \<Rightarrow> jsnumber \<Rightarrow> jsnumber" where
  "js_add a b =
     (case (a, b) of
        (NaN, _) \<Rightarrow> NaN
      | (_, NaN) \<Rightarrow> NaN
      | (Fin x, Fin y) \<Rightarrow> round64 (x + y)
      | (PInf, NInf) \<Rightarrow> NaN
      | (NInf, PInf) \<Rightarrow> NaN
      | (PInf, _) \<Rightarrow> PInf
      | (_, PInf) \<Rightarrow> PInf
      | (NInf, _) \<Rightarrow> NInf
      | (_, NInf) \<Rightarrow> NInf)"

definition js_mul :: "jsnumber \<Rightarrow> jsnumber \<Rightarrow> jsnumber" where
  "js_mul a b =
     (case (a, b) of
        (NaN, _) \<Rightarrow> NaN
      | (_, NaN) \<Rightarrow> NaN
      | (Fin x, Fin y) \<Rightarrow> round64 (x * y)
      | (Fin x, PInf) \<Rightarrow> (if x = 0 then NaN else if 0 < x then PInf else NInf)
      | (Fin x, NInf) \<Rightarrow> (if x = 0 then NaN else if 0 < x then NInf else PInf)
      | (PInf, Fin y) \<Rightarrow> (if y = 0 then NaN else if 0 < y then PInf else NInf)
      | (NInf, Fin y) \<Rightarrow> (if y = 0 then NaN else if 0 < y then NInf else PInf)
      | (PInf, PInf) \<Rightarrow> PInf
      | (NInf, NInf) \<Rightarrow> PInf
      | (PInf, NInf) \<Rightarrow> NInf
      | (NInf, PInf) \<Rightarrow> NInf)"

text \<open>
  In a quotient the zero divisor is \<^verbatim>\<open>+0\<close>. The divisors of this code are a positive
  length, the constants 10 and 100, and a total weight that has been tested to be
  positive.
\<close>

definition js_div :: "jsnumber \<Rightarrow> jsnumber \<Rightarrow> jsnumber" where
  "js_div a b =
     (case (a, b) of
        (NaN, _) \<Rightarrow> NaN
      | (_, NaN) \<Rightarrow> NaN
      | (Fin x, Fin y) \<Rightarrow>
          (if y = 0 then (if x = 0 then NaN else if 0 < x then PInf else NInf)
           else round64 (x / y))
      | (Fin x, _) \<Rightarrow> Fin 0
      | (PInf, Fin y) \<Rightarrow> (if 0 \<le> y then PInf else NInf)
      | (NInf, Fin y) \<Rightarrow> (if 0 \<le> y then NInf else PInf)
      | (_, _) \<Rightarrow> NaN)"

text \<open>\<^verbatim>\<open>a > b\<close> on numbers; a comparison with \<^verbatim>\<open>NaN\<close> is false.\<close>

definition js_gt :: "jsnumber \<Rightarrow> jsnumber \<Rightarrow> bool" where
  "js_gt a b =
     (case (a, b) of
        (NaN, _) \<Rightarrow> False
      | (_, NaN) \<Rightarrow> False
      | (Fin x, Fin y) \<Rightarrow> y < x
      | (PInf, PInf) \<Rightarrow> False
      | (PInf, _) \<Rightarrow> True
      | (NInf, _) \<Rightarrow> False
      | (Fin x, PInf) \<Rightarrow> False
      | (Fin x, NInf) \<Rightarrow> True)"

text \<open>
  \<^verbatim>\<open>Math.round(x)\<close> is the integer closest to \<open>x\<close>, the one towards \<open>+\<infinity>\<close> when two
  are equally close. The result is computed from \<open>x\<close> itself and is a double whenever
  \<open>x\<close> is.
\<close>

definition Math_round :: "jsnumber \<Rightarrow> jsnumber" where
  "Math_round a = (case a of Fin x \<Rightarrow> Fin (of_int \<lfloor>x + 1 / 2\<rfloor>) | _ \<Rightarrow> a)"

subsection \<open>Records\<close>

text \<open>
  JSON values: what the properties of a course that this code only carries along can
  hold. No operation looks inside them.
\<close>

datatype jsval =
    JNull
  | JBool bool
  | JNum rat
  | JStr string
  | JArr "jsval list"
  | JObj "(string \<times> jsval) list"

record gradeCategory =
  name :: string
  weight :: jsnumber

text \<open>
  A stored course. \<open>gradeCategories = None\<close> stands for a course object whose
  \<^verbatim>\<open>gradeCategories\<close> property is missing or \<^verbatim>\<open>null\<close> (both are falsy, and JSON
  drops \<^verbatim>\<open>undefined\<close>); an array, also the empty one, is truthy. \<open>props\<close> maps the
  names of the remaining properties (\<^verbatim>\<open>code\<close>, \<^verbatim>\<open>color\<close>, \<^verbatim>\<open>targetGrade\<close> and any
  other) to their values; a name it does not bind reads as \<^verbatim>\<open>undefined\<close>.
\<close>

record course =
  Id' :: int
  gradeCategories :: "gradeCategory list option"
  props :: "string \<rightharpoonup> jsval"

text \<open>
  An assignment as the page reads it; \<open>grade = None\<close> is \<^verbatim>\<open>grade: null\<close>. The
  properties \<^verbatim>\<open>Id\<close> and \<^verbatim>\<open>title\<close> of an assignment are never read by the grade
  computation and are left out.
\<close>

record assignment =
  courseId :: int
  category :: string
  completed :: bool
  grade :: "jsnumber option"

record categoryGrade = gradeCategory +
  average :: jsnumber
  count :: nat
  weightedScore :: jsnumber

section \<open>The grade aggregator (Grades.jsx)\<close>

text \<open>\<^verbatim>\<open>Math.round(x * 10) / 10\<close>, the rounding the page applies to its results.\<close>

definition round1 :: "jsnumber \<Rightarrow> jsnumber" where
  "round1 x = js_div (Math_round (js_mul x (Fin 10))) (Fin 10)"

text \<open>
  The one division of the page whose divisor is a computed sum. \<open>None\<close> reports a zero
  divisor, which would give an infinity or \<^verbatim>\<open>NaN\<close> and no grade.
\<close>

definition divide_js :: "jsnumber \<Rightarrow> jsnumber \<Rightarrow> jsnumber option" where
  "divide_js a b = (if b = Fin 0 then None else Some (js_div a b))"

text \<open>
  \<^verbatim>\<open>const currentCourse = courses.find(c => c.Id === selectedCourse)\<close>; the state
  \<^verbatim>\<open>selectedCourse\<close> is \<^verbatim>\<open>null\<close> (\<open>None\<close>) until a course is selected.
\<close>

definition currentCourse :: "course list \<Rightarrow> int option \<Rightarrow> course option" where
  "currentCourse courses selectedCourse =
     find (\<lambda>c. Some (Id' c) = selectedCourse) courses"

text \<open>
  \<^verbatim>\<open>assignments.filter(a => a.courseId === selectedCourse && a.completed && a.grade !== null)\<close>
\<close>

definition courseAssignments :: "assignment list \<Rightarrow> int option \<Rightarrow> assignment list" where
  "courseAssignments assignments selectedCourse =
     filter (\<lambda>a. Some (courseId a) = selectedCourse \<and> completed a \<and> grade a \<noteq> None)
       assignments"

text \<open>
  \<^verbatim>\<open>a.grade\<close> of an assignment that passed the filter above; \<^verbatim>\<open>null\<close> would count as
  \<open>0\<close> in a sum of numbers.
\<close>

definition gradeOf :: "assignment \<Rightarrow> jsnumber" where
  "gradeOf a = (case grade a of None \<Rightarrow> Fin 0 | Some g \<Rightarrow> g)"

text \<open>
  The body of the \<^verbatim>\<open>map\<close> callback of \<^verbatim>\<open>calculateGradeByCategory\<close>. The division
  by \<^verbatim>\<open>categoryAssignments.length\<close> is reached only when that length is not zero.
\<close>

definition categoryGradeOf :: "assignment list \<Rightarrow> gradeCategory \<Rightarrow> categoryGrade" where
  "categoryGradeOf cas cat =
     (let categoryAssignments = filter (\<lambda>a. category a = name cat) cas in
      if length categoryAssignments = 0 then
        \<lparr>name = name cat, weight = weight cat,
         average = Fin 0, count = 0, weightedScore = Fin 0\<rparr>
      else
        let average =
              js_div (foldl (\<lambda>sum a. js_add sum (gradeOf a)) (Fin 0) categoryAssignments)
                (Fin (of_nat (length categoryAssignments)));
            weightedScore = js_div (js_mul average (weight cat)) (Fin 100)
        in \<lparr>name = name cat, weight = weight cat,
            average = js_div (Math_round (js_mul average (Fin 10))) (Fin 10),
            count = length categoryAssignments,
            weightedScore = js_div (Math_round (js_mul weightedScore (Fin 10))) (Fin 10)\<rparr>)"

definition calculateGradeByCategory :: "course option \<Rightarrow> assignment list \<Rightarrow> categoryGrade list" where
  "calculateGradeByCategory cur cas =
     (case cur of
        None \<Rightarrow> []
      | Some c \<Rightarrow>
          (case gradeCategories c of
             None \<Rightarrow> []
           | Some cats \<Rightarrow> map (categoryGradeOf cas) cats))"

definition currentGrade :: "categoryGrade list \<Rightarrow> jsnumber" where
  "currentGrade categoryGrades =
     foldl (\<lambda>sum cat. js_add sum (weightedScore cat)) (Fin 0) categoryGrades"

definition totalWeight :: "categoryGrade list \<Rightarrow> jsnumber" where
  "totalWeight categoryGrades =
     foldl (\<lambda>sum cat. if count cat > 0 then js_add sum (weight cat) else sum) (Fin 0)
       categoryGrades"

text \<open>
  \<^verbatim>\<open>totalWeight > 0 ? (currentGrade / totalWeight) * 100 : 0\<close>; \<open>None\<close> is the result
  of a division by zero.
\<close>

definition adjustedGrade :: "categoryGrade list \<Rightarrow> jsnumber option" where
  "adjustedGrade categoryGrades =
     (if js_gt (totalWeight categoryGrades) (Fin 0) then
        map_option (\<lambda>q. js_mul q (Fin 100))
          (divide_js (currentGrade categoryGrades) (totalWeight categoryGrades))
      else Some (Fin 0))"

text \<open>The value the page shows: \<^verbatim>\<open>Math.round(adjustedGrade)\<close>.\<close>

definition displayedGrade :: "categoryGrade list \<Rightarrow> jsnumber option" where
  "displayedGrade categoryGrades = map_option Math_round (adjustedGrade categoryGrades)"

text \<open>The whole computation of one render, from the page's state.\<close>

definition categoryGrades :: "course list \<Rightarrow> assignment list \<Rightarrow> int option \<Rightarrow> categoryGrade list" where
  "categoryGrades courses assignments selectedCourse =
     calculateGradeByCategory (currentCourse courses selectedCourse)
       (courseAssignments assignments selectedCourse)"

text \<open>
  The mean of the grades of the assignments of a category, as a specification would
  write it: their sum, taken from left to right, divided by their number.
\<close>

definition meanGrade :: "assignment list \<Rightarrow> gradeCategory \<Rightarrow> jsnumber" where
  "meanGrade cas cat =
     js_div (foldl js_add (Fin 0) (map gradeOf (filter (\<lambda>a. category a = name cat) cas)))
       (Fin (of_nat (length (filter (\<lambda>a. category a = name cat) cas))))"

subsection \<open>Example inputs\<close>

text \<open>
  A course with the categories Homework (weight 40) and Exams (weight 60), and three
  completed, graded assignments of it: Homework 90, Homework 80, Exams 70.
\<close>

definition exampleCourse :: course where
  "exampleCourse =
     \<lparr>Id' = 1,
      gradeCategories =
        Some [\<lparr>name = ''Homework'', weight = Fin 40\<rparr>, \<lparr>name = ''Exams'', weight = Fin 60\<rparr>],
      props = Map.empty\<rparr>"

definition exampleAssignments :: "assignment list" where
  "exampleAssignments =
     [\<lparr>courseId = 1, category = ''Homework'', completed = True, grade = Some (Fin 90)\<rparr>,
      \<lparr>courseId = 1, category = ''Homework'', completed = True, grade = Some (Fin 80)\<rparr>,
      \<lparr>courseId = 1, category = ''Exams'', completed = True, grade = Some (Fin 70)\<rparr>]"

text \<open>One category of weight 95 with the grades 85, 85 and 86: the mean is not a tenth.\<close>

definition thirdsCategory :: gradeCategory where
  "thirdsCategory = \<lparr>name = ''Homework'', weight = Fin 95\<rparr>"

definition thirdsAssignments :: "assignment list" where
  "thirdsAssignments =
     [\<lparr>courseId = 1, category = ''Homework'', completed = True, grade = Some (Fin 85)\<rparr>,
      \<lparr>courseId = 1, category = ''Homework'', completed = True, grade = Some (Fin 85)\<rparr>,
      \<lparr>courseId = 1, category = ''Homework'', completed = True, grade = Some (Fin 86)\<rparr>]"

text \<open>
  One category of weight 15 with the grades 16, 16 and 17: the exact weighted score
  2.45 lies on a tie, and the doubles of the computation fall below it.
\<close>

definition tieCategory :: gradeCategory where
  "tieCategory = \<lparr>name = ''Quizzes'', weight = Fin 15\<rparr>"

definition tieAssignments :: "assignment list" where
  "tieAssignments =
     [\<lparr>courseId = 1, category = ''Quizzes'', completed = True, grade = Some (Fin 16)\<rparr>,
      \<lparr>courseId = 1, category = ''Quizzes'', completed = True, grade = Some (Fin 16)\<rparr>,
      \<lparr>courseId = 1, category = ''Quizzes'', completed = True, grade = Some (Fin 17)\<rparr>]"

section \<open>The course record store (courseService.js)\<close>

text \<open>
  The store keeps one JSON text under the key \<^verbatim>\<open>studyflow_courses\<close> of
  \<^verbatim>\<open>localStorage\<close>. The model holds the array that text parses to: \<open>None\<close> is the
  unset slot, \<open>Some courses\<close> the slot as \<^verbatim>\<open>saveCourses(courses)\<close> wrote it. A JSON
  value survives \<^verbatim>\<open>JSON.stringify\<close> followed by \<^verbatim>\<open>JSON.parse\<close> unchanged, so writing
  and reading back is the identity on the model's values; a slot holding text that
  does not parse is outside the model.

  The bundled data set (\<^verbatim>\<open>import coursesData from "../mockData/courses.json"\<close>) is
  data, not code: it is the parameter \<open>coursesData\<close> of every operation. While the slot
  is unset, \<^verbatim>\<open>create\<close> and \<^verbatim>\<open>update\<close> change that imported array in place before
  they save it; from then on the slot is set and these operations read the slot only.

  Each operation first awaits a timer and then runs to its end without yielding, so an
  operation is one atomic step from the slot's content to its result and the new content.
\<close>

type_synonym storage = "course list option"

definition getStoredCourses :: "course list \<Rightarrow> storage \<Rightarrow> course list" where
  "getStoredCourses coursesData stored =
     (case stored of None \<Rightarrow> coursesData | Some courses \<Rightarrow> courses)"

definition saveCourses :: "course list \<Rightarrow> storage" where
  "saveCourses courses = Some courses"

text \<open>
  An object handed to \<^verbatim>\<open>create\<close> or \<^verbatim>\<open>update\<close>: every property may be missing.
  \<open>dataId = None\<close> and \<open>dataGradeCategories = None\<close> say that the object does not name
  the property; \<open>dataGradeCategories = Some None\<close> names it with the value \<^verbatim>\<open>null\<close>.
\<close>

record courseData =
  dataId :: "int option"
  dataGradeCategories :: "gradeCategory list option option"
  dataProps :: "string \<rightharpoonup> jsval"

text \<open>The object spread \<^verbatim>\<open>{ ...course, ...data }\<close>: properties of \<open>data\<close> win.\<close>

definition spread :: "course \<Rightarrow> courseData \<Rightarrow> course" where
  "spread c d =
     \<lparr>Id' = (case dataId d of None \<Rightarrow> Id' c | Some i \<Rightarrow> i),
      gradeCategories = (case dataGradeCategories d of None \<Rightarrow> gradeCategories c | Some g \<Rightarrow> g),
      props = props c ++ dataProps d\<rparr>"

subsection \<open>parseInt\<close>

text \<open>
  The \<^verbatim>\<open>id\<close> of \<^verbatim>\<open>getById\<close>, \<^verbatim>\<open>update\<close> and \<^verbatim>\<open>delete\<close> goes through
  \<^verbatim>\<open>parseInt(id)\<close>, whose first step converts its argument to a string. The model takes
  that string: a number argument is passed as the string JavaScript converts it to
  (\<open>Number_toString\<close>).
  Strings are sequences of code units below 256. \<open>parseInt\<close> follows the steps of the
  language definition for a missing radix: skip leading white space, read a sign, read
  the prefix \<^verbatim>\<open>0x\<close> or \<^verbatim>\<open>0X\<close>, keep the longest run of digits of the radix, and
  answer \<^verbatim>\<open>NaN\<close> (\<open>None\<close>) when that run is empty. The integer that the digits
  write is rounded to the nearest double. (A run of more than 308 digits reads as
  \<^verbatim>\<open>Infinity\<close>, which is the Id of no record, as is the value the model gives it.)
\<close>

definition isWhiteSpace :: "char \<Rightarrow> bool" where
  "isWhiteSpace c = ((of_char c :: nat) \<in> {9, 10, 11, 12, 13, 32, 160})"

definition digitValue :: "char \<Rightarrow> nat option" where
  "digitValue c =
     (let n = (of_char c :: nat) in
      if 48 \<le> n \<and> n \<le> 57 then Some (n - 48)
      else if 97 \<le> n \<and> n \<le> 122 then Some (n - 87)
      else if 65 \<le> n \<and> n \<le> 90 then Some (n - 55)
      else None)"

definition isRadixDigit :: "nat \<Rightarrow> char \<Rightarrow> bool" where
  "isRadixDigit R c = (case digitValue c of None \<Rightarrow> False | Some v \<Rightarrow> v < R)"

definition digitsValue :: "nat \<Rightarrow> string \<Rightarrow> nat" where
  "digitsValue R Z =
     foldl (\<lambda>acc c. acc * R + (case digitValue c of None \<Rightarrow> 0 | Some v \<Rightarrow> v)) 0 Z"

definition parseInt :: "string \<Rightarrow> int option" where
  "parseInt string =
     (let S = dropWhile isWhiteSpace string;
          sign = (if take 1 S = ''-'' then - 1 else (1 :: int));
          S1 = (if take 1 S = ''+'' \<or> take 1 S = ''-'' then drop 1 S else S);
          hex = (take 2 S1 = ''0x'' \<or> take 2 S1 = ''0X'');
          R = (if hex then 16 else 10);
          S2 = (if hex then drop 2 S1 else S1);
          Z = takeWhile (isRadixDigit R) S2
      in if Z = [] then None else Some (sign * nearestDouble (int (digitsValue R Z))))"

text \<open>
  The string of an integer-valued number up to \<open>2\<^sup>5\<^sup>3\<close> in size: its decimal digits,
  with a minus sign when it is negative. Beyond \<open>2\<^sup>5\<^sup>3\<close> JavaScript writes the shortest
  digits that read back as the same double, filled up with zeros, and from \<open>10\<^sup>2\<^sup>1\<close> on
  an exponent; those forms are not modelled, and the result is \<open>None\<close> there.
\<close>

definition digitChar :: "nat \<Rightarrow> char" where
  "digitChar d = char_of (48 + d)"

function digitsOf :: "nat \<Rightarrow> string" where
  "digitsOf n = (if n < 10 then [digitChar n] else digitsOf (n div 10) @ [digitChar (n mod 10)])"
  by pat_completeness auto
termination
  by (relation "measure (\<lambda>n. n)") auto

declare digitsOf.simps [simp del]

definition Number_toString :: "int \<Rightarrow> string option" where
  "Number_toString n =
     (if 2 ^ 53 < \<bar>n\<bar> then None
      else if n < 0 then Some (CHR ''-'' # digitsOf (nat (- n)))
      else Some (digitsOf (nat n)))"

subsection \<open>The five operations\<close>

text \<open>
  An operation returns its result and the slot's new content. \<^verbatim>\<open>null\<close> results are
  \<open>None\<close>. The results are fresh copies (\<^verbatim>\<open>[...courses]\<close>, \<^verbatim>\<open>{ ...course }\<close>), which a
  model of values does not tell from the originals.
\<close>

definition getAll :: "course list \<Rightarrow> storage \<Rightarrow> course list \<times> storage" where
  "getAll coursesData stored = (getStoredCourses coursesData stored, stored)"

definition getById :: "course list \<Rightarrow> storage \<Rightarrow> string \<Rightarrow> course option \<times> storage" where
  "getById coursesData stored id' =
     (let courses = getStoredCourses coursesData stored;
          course = find (\<lambda>c. Some (Id' c) = parseInt id') courses
      in (course, stored))"

definition create :: "course list \<Rightarrow> storage \<Rightarrow> courseData \<Rightarrow> course \<times> storage" where
  "create coursesData stored course =
     (let courses = getStoredCourses coursesData stored;
          maxId = foldl (\<lambda>m c. max m (Id' c)) 0 courses;
          newCourse =
            \<lparr>Id' = nearestDouble (maxId + 1),
             gradeCategories =
               Some (case dataGradeCategories course of Some (Some cats) \<Rightarrow> cats | _ \<Rightarrow> []),
             props = dataProps course\<rparr>
      in (newCourse, saveCourses (courses @ [newCourse])))"

text \<open>\<^verbatim>\<open>findIndex\<close>: the first index whose element passes, \<open>None\<close> for \<^verbatim>\<open>-1\<close>.\<close>

fun findIndex :: "('a \<Rightarrow> bool) \<Rightarrow> 'a list \<Rightarrow> nat option" where
  "findIndex P [] = None"
| "findIndex P (x # xs) = (if P x then Some 0 else map_option Suc (findIndex P xs))"

definition update :: "course list \<Rightarrow> storage \<Rightarrow> string \<Rightarrow> courseData \<Rightarrow> course option \<times> storage" where
  "update coursesData stored id' data =
     (let courses = getStoredCourses coursesData stored in
      case findIndex (\<lambda>c. Some (Id' c) = parseInt id') courses of
        Some index \<Rightarrow>
          (let courses' = courses[index := spread (courses ! index) data]
           in (Some (courses' ! index), saveCourses courses'))
      | None \<Rightarrow> (None, stored))"

definition delete :: "course list \<Rightarrow> storage \<Rightarrow> string \<Rightarrow> bool \<times> storage" where
  "delete coursesData stored id' =
     (let courses = getStoredCourses coursesData stored;
          filtered = filter (\<lambda>c. Some (Id' c) \<noteq> parseInt id') courses
      in (True, saveCourses filtered))"

subsection \<open>Sequences of calls\<close>

datatype operation =
    GetAll
  | GetById string
  | Create courseData
  | Update string courseData
  | Delete string

definition perform :: "course list \<Rightarrow> storage \<Rightarrow> operation \<Rightarrow> storage" where
  "perform coursesData stored op =
     (case op of
        GetAll \<Rightarrow> snd (getAll coursesData stored)
      | GetById id' \<Rightarrow> snd (getById coursesData stored id')
      | Create course \<Rightarrow> snd (create coursesData stored course)
      | Update id' data \<Rightarrow> snd (update coursesData stored id' data)
      | Delete id' \<Rightarrow> snd (delete coursesData stored id'))"

fun performAll :: "course list \<Rightarrow> storage \<Rightarrow> operation list \<Rightarrow> storage" where
  "performAll coursesData stored [] = stored"
| "performAll coursesData stored (op # ops) =
     performAll coursesData (perform coursesData stored op) ops"

text \<open>
  The calls that keep the Ids apart. A \<^verbatim>\<open>create\<close> is made while the largest stored Id
  (or 0) is below \<open>2\<^sup>5\<^sup>3\<close>, so that the next integer is a double. An \<^verbatim>\<open>update\<close> either
  names no \<^verbatim>\<open>Id\<close>, or names an Id (an integer that is a double) that no record
  other than the located one has.
\<close>

definition okStep :: "course list \<Rightarrow> operation \<Rightarrow> bool" where
  "okStep courses op =
     (case op of
        Create course \<Rightarrow> foldl (\<lambda>m c. max m (Id' c)) 0 courses < 2 ^ 53
      | Update id' data \<Rightarrow>
          (case dataId data of
             None \<Rightarrow> True
           | Some v \<Rightarrow>
               isDouble v \<and>
               (case findIndex (\<lambda>c. Some (Id' c) = parseInt id') courses of
                  None \<Rightarrow> True
                | Some i \<Rightarrow> v \<notin> set (map Id' (take i courses @ drop (Suc i) courses))))
      | _ \<Rightarrow> True)"

fun okRun :: "course list \<Rightarrow> storage \<Rightarrow> operation list \<Rightarrow> bool" where
  "okRun coursesData stored [] = True"
| "okRun coursesData stored (op # ops) =
     (okStep (getStoredCourses coursesData stored) op
      \<and> okRun coursesData (perform coursesData stored op) ops)"

text \<open>A run of \<^verbatim>\<open>create\<close> calls: the records returned, in order, and the final slot.\<close>

fun createAll :: "course list \<Rightarrow> storage \<Rightarrow> courseData list \<Rightarrow> course list \<times> storage" where
  "createAll coursesData stored [] = ([], stored)"
| "createAll coursesData stored (d # ds) =
     (let (c, stored') = create coursesData stored d;
          (cs, stored'') = createAll coursesData stored' ds
      in (c # cs, stored''))"

subsection \<open>Example records\<close>

text \<open>Stored courses and argument objects, used to run the operations.\<close>

definition cs101 :: course where
  "cs101 = \<lparr>Id' = 1, gradeCategories = Some [], props = [''code'' \<mapsto> JStr ''CS101'']\<rparr>"

definition math201 :: course where
  "math201 =
     \<lparr>Id' = 2,
      gradeCategories = Some [\<lparr>name = ''Exams'', weight = Fin 100\<rparr>],
      props = [''code'' \<mapsto> JStr ''MATH201'', ''color'' \<mapsto> JStr ''#2563eb'']\<rparr>"

text \<open>A stored course whose Id is \<open>2\<^sup>5\<^sup>3\<close>, the first integer whose successor is no double.\<close>

definition hugeCourse :: course where
  "hugeCourse =
     \<lparr>Id' = 9007199254740992, gradeCategories = Some [],
      props = [''code'' \<mapsto> JStr ''OLD100'']\<rparr>"

definition renameData :: courseData where
  "renameData =
     \<lparr>dataId = None, dataGradeCategories = None, dataProps = [''code'' \<mapsto> JStr ''MATH202'']\<rparr>"

definition renumberData :: courseData where
  "renumberData = \<lparr>dataId = Some 2, dataGradeCategories = None, dataProps = Map.empty\<rparr>"

definition freshIdData :: courseData where
  "freshIdData = \<lparr>dataId = Some 5, dataGradeCategories = None, dataProps = Map.empty\<rparr>"

definition physData :: courseData where
  "physData =
     \<lparr>dataId = Some 7, dataGradeCategories = None, dataProps = [''code'' \<mapsto> JStr ''PHYS110'']\<rparr>"

text \<open>
  Two assignments of the example course: one of a category of the course but without a
  grade yet, and a graded one whose category the course does not define.
\<close>

definition unmatchedAssignments :: "assignment list" where
  "unmatchedAssignments =
     [\<lparr>courseId = 1, category = ''Homework'', completed = True, grade = None\<rparr>,
      \<lparr>courseId = 1, category = ''Quizzes'', completed = True, grade = Some (Fin 55)\<rparr>]"

section \<open>Properties of the grade aggregator\<close>

subsection \<open>Evaluating double arithmetic\<close>

lemma floor_rat_numeral: "\<lfloor>(numeral a / numeral b :: rat)\<rfloor> = numeral a div numeral b"
  by (metis floor_divide_of_int_eq of_int_numeral)

lemma ceiling_rat_numeral: "\<lceil>(numeral a / numeral b :: rat)\<rceil> = - (- numeral a div numeral b)"
  by (metis ceiling_divide_eq_div of_int_numeral)

text \<open>The definitions that evaluate an operation on given numbers.\<close>

lemmas number_defs = js_add_def js_mul_def js_div_def js_gt_def Math_round_def round64_def
  nearest_def ulp_def ilog2_def pow2_def roundHalfEven_def bitLength.simps
  floor_rat_numeral ceiling_rat_numeral

text \<open>
  Two values every double arithmetic agrees on: \<^verbatim>\<open>0.1 + 0.2\<close> is the double above
  \<^verbatim>\<open>0.3\<close>, and \<open>2\<^sup>5\<^sup>3 + 1\<close> is rounded to \<open>2\<^sup>5\<^sup>3\<close>.
\<close>

lemma tenth_plus_fifth:
  "js_div (Fin 3) (Fin 10) = Fin (5404319552844595 / 18014398509481984)
   \<and> js_add (js_div (Fin 1) (Fin 10)) (js_div (Fin 2) (Fin 10)) =
       Fin (5404319552844596 / 18014398509481984)"
  by (simp add: number_defs)

lemma successor_of_2_53:
  "js_add (Fin 9007199254740992) (Fin 1) = Fin 9007199254740992
   \<and> nearestDouble (9007199254740992 + 1) = 9007199254740992
   \<and> nearestDouble (9007199254740994 + 1) = 9007199254740996"
  by (simp add: number_defs nearestDouble_def)

lemma example_categoryGrades:
  "categoryGrades [exampleCourse] exampleAssignments (Some 1) =
     [\<lparr>name = ''Homework'', weight = Fin 40, average = Fin 85, count = 2,
       weightedScore = Fin 34\<rparr>,
      \<lparr>name = ''Exams'', weight = Fin 60, average = Fin 70, count = 1,
       weightedScore = Fin 42\<rparr>]"
  by (simp add: categoryGrades_def exampleCourse_def exampleAssignments_def currentCourse_def
      courseAssignments_def calculateGradeByCategory_def categoryGradeOf_def gradeOf_def
      number_defs)

text \<open>
  C1. On the worked example (Homework 40 with grades 90 and 80, Exams 60 with grade 70,
  all completed and graded) the page computes Homework average 85 and weighted score 34,
  Exams average 70 and weighted score 42, total weight 100 and adjusted grade 76, and it
  shows 76. Every one of these values is the exact double.
\<close>

theorem C1_worked_example:
  "categoryGrades [exampleCourse] exampleAssignments (Some 1) =
     [\<lparr>name = ''Homework'', weight = Fin 40, average = Fin 85, count = 2,
       weightedScore = Fin 34\<rparr>,
      \<lparr>name = ''Exams'', weight = Fin 60, average = Fin 70, count = 1,
       weightedScore = Fin 42\<rparr>]
   \<and> totalWeight (categoryGrades [exampleCourse] exampleAssignments (Some 1)) = Fin 100
   \<and> adjustedGrade (categoryGrades [exampleCourse] exampleAssignments (Some 1)) = Some (Fin 76)
   \<and> displayedGrade (categoryGrades [exampleCourse] exampleAssignments (Some 1)) = Some (Fin 76)"
  by (simp add: example_categoryGrades totalWeight_def currentGrade_def adjustedGrade_def
      displayedGrade_def divide_js_def number_defs)


subsection \<open>Rounding\<close>

lemma Math_round_nearest:
  "\<exists>k. Math_round (Fin x) = Fin (of_int k) \<and> x - 1 / 2 < of_int k \<and> of_int k \<le> x + 1 / 2"
proof -
  have "of_int \<lfloor>x + 1 / 2\<rfloor> \<le> x + 1 / 2" by (rule of_int_floor_le)
  moreover have "x + 1 / 2 < of_int \<lfloor>x + 1 / 2\<rfloor> + 1" by linarith
  ultimately show ?thesis by (auto simp: Math_round_def)
qed

lemma categoryGradeOf_nonempty:
  assumes "filter (\<lambda>a. category a = name cat) cas \<noteq> []"
  shows "categoryGradeOf cas cat =
     \<lparr>name = name cat, weight = weight cat,
      average = js_div (Math_round (js_mul (meanGrade cas cat) (Fin 10))) (Fin 10),
      count = length (filter (\<lambda>a. category a = name cat) cas),
      weightedScore =
        js_div (Math_round (js_mul (js_div (js_mul (meanGrade cas cat) (weight cat)) (Fin 100))
          (Fin 10))) (Fin 10)\<rparr>"
  using assms by (simp add: categoryGradeOf_def Let_def meanGrade_def foldl_map)

lemma categoryGradeOf_empty:
  assumes "filter (\<lambda>a. category a = name cat) cas = []"
  shows "categoryGradeOf cas cat =
     \<lparr>name = name cat, weight = weight cat, average = Fin 0, count = 0, weightedScore = Fin 0\<rparr>"
  using assms by (simp add: categoryGradeOf_def)

text \<open>
  C2, as the code has it. For a category with at least one matching assignment, the
  average is \<^verbatim>\<open>Math.round(mean * 10) / 10\<close> and the weighted score is
  \<^verbatim>\<open>Math.round((mean * weight / 100) * 10) / 10\<close>, both computed in double arithmetic
  from the same mean, which is not rounded first; the current grade is the sum of these
  rounded weighted scores. \<^verbatim>\<open>Math.round\<close> gives the nearest integer, the upper one
  on a tie; the products it is applied to are doubles, so a value whose exact product
  lies on a tie goes to the side its double falls on.
\<close>

theorem C2_rounding:
  assumes "filter (\<lambda>a. category a = name cat) cas \<noteq> []"
  shows "average (categoryGradeOf cas cat) =
           js_div (Math_round (js_mul (meanGrade cas cat) (Fin 10))) (Fin 10)
       \<and> weightedScore (categoryGradeOf cas cat) =
           js_div (Math_round (js_mul
             (js_div (js_mul (meanGrade cas cat) (weight cat)) (Fin 100)) (Fin 10))) (Fin 10)
       \<and> currentGrade (map (categoryGradeOf cas) cats) =
           foldl js_add (Fin 0) (map (\<lambda>c. weightedScore (categoryGradeOf cas c)) cats)
       \<and> (\<forall>x. \<exists>k. Math_round (Fin x) = Fin (of_int k)
              \<and> x - 1 / 2 < of_int k \<and> of_int k \<le> x + 1 / 2)"
proof -
  have "currentGrade (map (categoryGradeOf cas) cats) =
      foldl js_add (Fin 0) (map (\<lambda>c. weightedScore (categoryGradeOf cas c)) cats)"
    by (simp add: currentGrade_def foldl_map comp_def)
  then show ?thesis
    using Math_round_nearest by (simp add: categoryGradeOf_nonempty[OF assms])
qed

text \<open>
  C2 on a category of weight 15 with the grades 16, 16 and 17. The exact weighted score
  is 2.45; the doubles give 2.4.
\<close>

theorem C2_rounding_witness:
  "meanGrade tieAssignments tieCategory = js_div (Fin 49) (Fin 3)
   \<and> average (categoryGradeOf tieAssignments tieCategory) = js_div (Fin 163) (Fin 10)
   \<and> weightedScore (categoryGradeOf tieAssignments tieCategory) = js_div (Fin 24) (Fin 10)"
proof -
  have ne: "filter (\<lambda>a. category a = name tieCategory) tieAssignments \<noteq> []"
    by (simp add: tieAssignments_def tieCategory_def)
  have m: "meanGrade tieAssignments tieCategory = Fin (4597424619607381 / 281474976710656)"
    by (simp add: meanGrade_def tieAssignments_def tieCategory_def gradeOf_def number_defs)
  have w: "weight tieCategory = Fin 15" by (simp add: tieCategory_def)
  have d: "js_div (Fin 49) (Fin 3) = Fin (4597424619607381 / 281474976710656)"
    by (simp add: number_defs)
  have a: "js_div (Math_round (js_mul (Fin (4597424619607381 / 281474976710656)) (Fin 10))) (Fin 10)
      = js_div (Fin 163) (Fin 10)"
    by (simp add: number_defs)
  have s: "js_div (Math_round (js_mul (js_div (js_mul (Fin (4597424619607381 / 281474976710656))
      (Fin 15)) (Fin 100)) (Fin 10))) (Fin 10) = js_div (Fin 24) (Fin 10)"
    by (simp add: number_defs)
  from C2_rounding[OF ne, of "[]"] show ?thesis
    unfolding m w a s d by simp
qed

text \<open>
  C2 as stated fails on a category of weight 95 with the grades 85, 85 and 86: the
  weighted score is 81.1, whereas the rounded average 85.3 times 95 / 100, rounded, is
  81.
\<close>

theorem C2_counterexample:
  "average (categoryGradeOf thirdsAssignments thirdsCategory) = js_div (Fin 853) (Fin 10)
   \<and> weightedScore (categoryGradeOf thirdsAssignments thirdsCategory) = js_div (Fin 811) (Fin 10)
   \<and> round1 (js_div (js_mul (average (categoryGradeOf thirdsAssignments thirdsCategory))
         (weight thirdsCategory)) (Fin 100)) = Fin 81
   \<and> js_div (Fin 811) (Fin 10) \<noteq> Fin 81"
  by (simp add: categoryGradeOf_def thirdsAssignments_def thirdsCategory_def gradeOf_def
      round1_def number_defs)

subsection \<open>No graded assignments\<close>

lemma totalWeight_zero:
  "\<forall>g\<in>set gs. count g = 0 \<Longrightarrow>
     foldl (\<lambda>sum cat. if count cat > 0 then js_add sum (weight cat) else sum) z gs = z"
  by (induction gs arbitrary: z) simp_all

lemma adjustedGrade_finite: "adjustedGrade gs \<noteq> None"
  by (auto simp: adjustedGrade_def divide_js_def js_gt_def)

text \<open>
  C10. When no assignment handed to the computation matches any category of the course,
  the total weight is 0 and the adjusted grade is 0 (shown as 0). The division is made
  only under \<open>totalWeight > 0\<close>: for every list of category grades the adjusted grade is
  never the result of a division by zero.
\<close>

theorem C10_no_graded_assignments:
  assumes "gradeCategories c = Some cats"
    and "\<forall>cat\<in>set cats. \<forall>a\<in>set cas. category a \<noteq> name cat"
  shows "totalWeight (calculateGradeByCategory (Some c) cas) = Fin 0
       \<and> adjustedGrade (calculateGradeByCategory (Some c) cas) = Some (Fin 0)
       \<and> displayedGrade (calculateGradeByCategory (Some c) cas) = Some (Fin 0)
       \<and> (\<forall>gs. adjustedGrade gs \<noteq> None)"
proof -
  have "filter (\<lambda>a. category a = name cat) cas = []" if "cat \<in> set cats" for cat
    using assms(2) that by (simp add: filter_empty_conv)
  then have "\<forall>g\<in>set (map (categoryGradeOf cas) cats). count g = 0"
    by (simp add: categoryGradeOf_empty)
  then have tw: "totalWeight (calculateGradeByCategory (Some c) cas) = Fin 0"
    using totalWeight_zero[of "map (categoryGradeOf cas) cats" "Fin 0"]
    by (simp add: totalWeight_def calculateGradeByCategory_def assms(1))
  have half: "\<lfloor>(1 / 2 :: rat)\<rfloor> = 0" by linarith
  have ag: "adjustedGrade (calculateGradeByCategory (Some c) cas) = Some (Fin 0)"
    using tw by (simp add: adjustedGrade_def js_gt_def)
  have dg: "displayedGrade (calculateGradeByCategory (Some c) cas) = Some (Fin 0)"
    by (simp add: displayedGrade_def ag Math_round_def half)
  show ?thesis using tw ag dg adjustedGrade_finite by blast
qed

text \<open>
  C10 on the example course with an ungraded Homework assignment, which the page's filter
  drops, and a graded assignment of a category the course does not have.
\<close>

theorem C10_witness:
  "courseAssignments unmatchedAssignments (Some 1) =
      [\<lparr>courseId = 1, category = ''Quizzes'', completed = True, grade = Some (Fin 55)\<rparr>]
   \<and> totalWeight (categoryGrades [exampleCourse] unmatchedAssignments (Some 1)) = Fin 0
   \<and> adjustedGrade (categoryGrades [exampleCourse] unmatchedAssignments (Some 1)) = Some (Fin 0)
   \<and> displayedGrade (categoryGrades [exampleCourse] unmatchedAssignments (Some 1)) = Some (Fin 0)"
proof -
  let ?quiz = "\<lparr>courseId = 1, category = ''Quizzes'', completed = True, grade = Some (Fin 55)\<rparr>"
  have cas: "courseAssignments unmatchedAssignments (Some 1) = [?quiz]"
    by (simp add: courseAssignments_def unmatchedAssignments_def)
  have cur: "currentCourse [exampleCourse] (Some 1) = Some exampleCourse"
    by (simp add: currentCourse_def exampleCourse_def)
  have cats: "gradeCategories exampleCourse =
      Some [\<lparr>name = ''Homework'', weight = Fin 40\<rparr>, \<lparr>name = ''Exams'', weight = Fin 60\<rparr>]"
    by (simp add: exampleCourse_def)
  have unmatched:
    "\<forall>cat\<in>set [\<lparr>name = ''Homework'', weight = Fin 40\<rparr>, \<lparr>name = ''Exams'', weight = Fin 60\<rparr>].
      \<forall>a\<in>set [?quiz]. category a \<noteq> name cat"
    by simp
  show ?thesis
    using C10_no_graded_assignments[OF cats unmatched]
    by (simp add: categoryGrades_def cas cur)
qed

section \<open>Properties of the course record store\<close>

subsection \<open>parseInt reads back the digits of an integer\<close>


lemma digitsValue_snoc: "digitsValue R (Z @ [c]) = digitsValue R Z * R + (case digitValue c of None \<Rightarrow> 0 | Some v \<Rightarrow> v)"
  by (simp add: digitsValue_def)

lemma digitValue_digitChar: "d < 10 \<Longrightarrow> digitValue (digitChar d) = Some d"
  by (simp add: digitValue_def digitChar_def Let_def)

lemma digitsValue_digitsOf: "digitsValue 10 (digitsOf n) = n"
proof (induction n rule: digitsOf.induct)
  case (1 n)
  show ?case
  proof (cases "n < 10")
    case True
    then show ?thesis by (simp add: digitsOf.simps digitsValue_def digitValue_digitChar)
  next
    case False
    then have "digitsValue 10 (digitsOf n) = digitsValue 10 (digitsOf (n div 10)) * 10 + n mod 10"
      by (subst digitsOf.simps) (simp add: digitsValue_snoc digitValue_digitChar)
    with False 1 show ?thesis by simp
  qed
qed

lemma digitsOf_chars: "c \<in> set (digitsOf n) \<Longrightarrow> \<exists>d<10. c = digitChar d"
proof (induction n rule: digitsOf.induct)
  case (1 n)
  show ?case
  proof (cases "n < 10")
    case True
    with 1(2) show ?thesis by (auto simp: digitsOf.simps)
  next
    case False
    with 1(2) have "c \<in> set (digitsOf (n div 10)) \<or> c = digitChar (n mod 10)"
      by (subst (asm) digitsOf.simps) auto
    with 1(1) False show ?thesis
      by (metis mod_less_divisor zero_less_numeral)
  qed
qed

lemma digitsOf_nonempty: "digitsOf n \<noteq> []"
  by (subst digitsOf.simps) simp

lemma of_char_digitChar: "d < 10 \<Longrightarrow> (of_char (digitChar d) :: nat) = 48 + d"
  by (simp add: digitChar_def)


lemma digitChar_plain:
  assumes "d < 10"
  shows "\<not> isWhiteSpace (digitChar d)" and "digitChar d \<noteq> CHR ''-''" and "digitChar d \<noteq> CHR ''+''"
    and "digitChar d \<noteq> CHR ''x''" and "digitChar d \<noteq> CHR ''X''" and "isRadixDigit 10 (digitChar d)"
proof -
  have n: "(of_char (digitChar d) :: nat) = 48 + d" using assms by (rule of_char_digitChar)
  show "\<not> isWhiteSpace (digitChar d)" using assms by (simp add: isWhiteSpace_def n)
  have ne: "\<And>c. (of_char c :: nat) \<noteq> 48 + d \<Longrightarrow> digitChar d \<noteq> c" using n by metis
  show "digitChar d \<noteq> CHR ''-''" by (rule ne) simp
  show "digitChar d \<noteq> CHR ''+''" by (rule ne) simp
  show "digitChar d \<noteq> CHR ''x''" using assms by (intro ne) simp
  show "digitChar d \<noteq> CHR ''X''" using assms by (intro ne) simp
  show "isRadixDigit 10 (digitChar d)" using assms by (simp add: isRadixDigit_def digitValue_digitChar)
qed



lemma digit_chars_no_x:
  assumes all: "\<forall>c\<in>set s. \<exists>d<10. c = digitChar d" and y: "y \<in> set s"
  shows "y \<noteq> CHR ''x''" and "y \<noteq> CHR ''X''"
proof -
  from all y obtain d where "d < 10" "y = digitChar d" by auto
  then show "y \<noteq> CHR ''x''" and "y \<noteq> CHR ''X''"
    by (simp_all add: digitChar_plain)
qed

lemma nohex:
  assumes all: "\<forall>c\<in>set s. \<exists>d<10. c = digitChar d"
  shows "take 2 s \<noteq> [z, CHR ''x'']" and "take 2 s \<noteq> [z, CHR ''X'']"
proof -
  have "y \<in> set s" if "take 2 s = [z, y]" for y
  proof -
    have "y \<in> set (take 2 s)" using that by simp
    then show ?thesis by (rule in_set_takeD)
  qed
  then show "take 2 s \<noteq> [z, CHR ''x'']" and "take 2 s \<noteq> [z, CHR ''X'']"
    using digit_chars_no_x[OF all] by metis+
qed


lemma all_radix10:
  assumes all: "\<forall>c\<in>set s. \<exists>d<10. c = digitChar d"
  shows "takeWhile (isRadixDigit 10) s = s"
proof -
  have "isRadixDigit 10 c" if "c \<in> set s" for c
  proof -
    from all that obtain d where "d < 10" "c = digitChar d" by auto
    then show ?thesis by (simp add: digitChar_plain)
  qed
  then show ?thesis by simp
qed

lemma parseInt_digits:
  assumes ne: "s \<noteq> []" and all: "\<forall>c\<in>set s. \<exists>d<10. c = digitChar d"
  shows "parseInt s = Some (nearestDouble (int (digitsValue 10 s)))"
proof -
  from ne obtain c cs where s: "s = c # cs" by (cases s) auto
  from all s obtain d where d: "d < 10" "c = digitChar d" by auto
  have dw: "dropWhile isWhiteSpace s = s"
    using s d digitChar_plain(1) by simp
  have t1: "take 1 s \<noteq> ''-''" "take 1 s \<noteq> ''+''"
    using s d digitChar_plain(2,3) by simp_all
  show ?thesis
    unfolding parseInt_def Let_def dw
    using ne t1 by (simp add: nohex[OF all] all_radix10[OF all])
qed

lemma parseInt_minus_digits:
  assumes ne: "s \<noteq> []" and all: "\<forall>c\<in>set s. \<exists>d<10. c = digitChar d"
  shows "parseInt (CHR ''-'' # s) = Some (- nearestDouble (int (digitsValue 10 s)))"
proof -
  have ws: "dropWhile isWhiteSpace (CHR ''-'' # s) = CHR ''-'' # s"
    by (simp add: isWhiteSpace_def)
  show ?thesis
    unfolding parseInt_def Let_def ws
    using ne by (simp add: nohex[OF all] all_radix10[OF all])
qed


lemma digitsOf_all: "\<forall>c\<in>set (digitsOf n). \<exists>d<10. c = digitChar d"
  using digitsOf_chars by blast

lemma parseInt_Number_toString:
  assumes "Number_toString n = Some s"
  shows "parseInt s = Some n"
proof -
  from assms have small: "\<bar>n\<bar> \<le> 2 ^ 53"
    by (simp add: Number_toString_def split: if_splits)
  show ?thesis
  proof (cases "n < 0")
    case True
    with assms have "s = CHR ''-'' # digitsOf (nat (- n))"
      by (simp add: Number_toString_def split: if_splits)
    with True small show ?thesis
      by (simp add: parseInt_minus_digits[OF digitsOf_nonempty digitsOf_all] digitsValue_digitsOf
          nearestDouble_def)
  next
    case False
    with assms have "s = digitsOf (nat n)"
      by (simp add: Number_toString_def split: if_splits)
    with False small show ?thesis
      by (simp add: parseInt_digits[OF digitsOf_nonempty digitsOf_all] digitsValue_digitsOf
          nearestDouble_def)
  qed
qed

lemma Number_toString_small:
  assumes "\<bar>n\<bar> \<le> 2 ^ 53"
  shows "\<exists>s. Number_toString n = Some s"
  using assms by (simp add: Number_toString_def)

subsection \<open>The maximum Id, find and findIndex\<close>

lemma maxId_lower: "m \<le> foldl (\<lambda>m c. max m (Id' c)) m cs"
proof (induction cs arbitrary: m)
  case Nil
  show ?case by simp
next
  case (Cons c cs)
  have "m \<le> max m (Id' c)" by simp
  also have "\<dots> \<le> foldl (\<lambda>m c. max m (Id' c)) (max m (Id' c)) cs" by (rule Cons.IH)
  finally show ?case by simp
qed

lemma maxId_upper: "c \<in> set cs \<Longrightarrow> Id' c \<le> foldl (\<lambda>m c. max m (Id' c)) m cs"
proof (induction cs arbitrary: m)
  case Nil
  then show ?case by simp
next
  case (Cons x xs)
  show ?case
  proof (cases "c = x")
    case True
    have "Id' c \<le> max m (Id' x)" using True by simp
    also have "\<dots> \<le> foldl (\<lambda>m c. max m (Id' c)) (max m (Id' x)) xs" by (rule maxId_lower)
    finally show ?thesis by simp
  next
    case False
    with Cons.prems have "c \<in> set xs" by simp
    then show ?thesis using Cons.IH by simp
  qed
qed

lemma maxId_mem: "foldl (\<lambda>m c. max m (Id' c)) m cs \<in> insert m (Id' ` set cs)"
proof (induction cs arbitrary: m)
  case Nil
  show ?case by simp
next
  case (Cons c cs)
  have "foldl (\<lambda>m c. max m (Id' c)) (max m (Id' c)) cs \<in> insert (max m (Id' c)) (Id' ` set cs)"
    by (rule Cons.IH)
  then show ?case by (auto simp: max_def split: if_splits)
qed

lemma maxId_positive:
  assumes "cs \<noteq> []" and "\<forall>c\<in>set cs. 0 < Id' c"
  shows "foldl (\<lambda>m c. max m (Id' c)) 0 cs = Max (Id' ` set cs)"
proof -
  let ?M = "foldl (\<lambda>m c. max m (Id' c)) 0 cs"
  from assms(1) obtain c where c: "c \<in> set cs" by (cases cs) auto
  have "0 < Id' c" using assms(2) c by simp
  also have "Id' c \<le> ?M" using c by (rule maxId_upper)
  finally have "?M \<noteq> 0" by simp
  with maxId_mem[of 0 cs] have mem: "?M \<in> Id' ` set cs" by simp
  have ub: "\<And>y. y \<in> Id' ` set cs \<Longrightarrow> y \<le> ?M" using maxId_upper by auto
  show ?thesis using Max_eqI[OF _ ub mem] by simp
qed

lemma find_append:
  "find P (xs @ ys) = (case find P xs of None \<Rightarrow> find P ys | Some x \<Rightarrow> Some x)"
  by (induction xs) simp_all

lemma findIndex_None: "findIndex P xs = None \<longleftrightarrow> (\<forall>x\<in>set xs. \<not> P x)"
  by (induction xs) auto

lemma findIndex_Some:
  "findIndex P xs = Some i \<Longrightarrow> i < length xs \<and> P (xs ! i) \<and> (\<forall>j<i. \<not> P (xs ! j))"
proof (induction xs arbitrary: i)
  case Nil
  then show ?case by simp
next
  case (Cons x xs)
  show ?case
  proof (cases "P x")
    case True
    with Cons.prems show ?thesis by simp
  next
    case False
    with Cons.prems obtain k where k: "findIndex P xs = Some k" "i = Suc k" by auto
    from Cons.IH[OF k(1)] False k(2) show ?thesis
      by (auto simp: nth_Cons split: nat.splits)
  qed
qed

lemma maxId_snoc:
  "foldl (\<lambda>m c. max m (Id' c)) 0 (cs @ [c]) = max (foldl (\<lambda>m c. max m (Id' c)) 0 cs) (Id' c)"
  by simp

subsection \<open>What each operation stores\<close>

text \<open>The definitions that evaluate \<open>parseInt\<close> on a given string.\<close>

lemmas parse_defs = parseInt_def isWhiteSpace_def isRadixDigit_def digitValue_def digitsValue_def
  nearestDouble_def

lemma nearestDouble_small: "\<bar>n\<bar> \<le> 2 ^ 53 \<Longrightarrow> nearestDouble n = n"
  by (simp add: nearestDouble_def)

lemma create_unfold:
  "create coursesData stored course =
     (\<lparr>Id' = nearestDouble (foldl (\<lambda>m c. max m (Id' c)) 0 (getStoredCourses coursesData stored) + 1),
       gradeCategories = Some (case dataGradeCategories course of Some (Some cats) \<Rightarrow> cats | _ \<Rightarrow> []),
       props = dataProps course\<rparr>,
      Some (getStoredCourses coursesData stored @
        [\<lparr>Id' = nearestDouble
                  (foldl (\<lambda>m c. max m (Id' c)) 0 (getStoredCourses coursesData stored) + 1),
          gradeCategories = Some (case dataGradeCategories course of Some (Some cats) \<Rightarrow> cats | _ \<Rightarrow> []),
          props = dataProps course\<rparr>]))"
  by (simp add: create_def Let_def saveCourses_def)

lemma create_stored:
  "getStoredCourses coursesData (snd (create coursesData stored course)) =
     getStoredCourses coursesData stored @ [fst (create coursesData stored course)]"
  by (simp add: create_unfold getStoredCourses_def)

lemma create_Id_exact:
  assumes "foldl (\<lambda>m c. max m (Id' c)) 0 (getStoredCourses coursesData stored) < 2 ^ 53"
  shows "Id' (fst (create coursesData stored course)) =
     foldl (\<lambda>m c. max m (Id' c)) 0 (getStoredCourses coursesData stored) + 1"
proof -
  have "0 \<le> foldl (\<lambda>m c. max m (Id' c)) 0 (getStoredCourses coursesData stored)"
    by (rule maxId_lower)
  with assms show ?thesis by (simp add: create_unfold nearestDouble_small)
qed

lemma create_fresh:
  assumes "foldl (\<lambda>m c. max m (Id' c)) 0 (getStoredCourses coursesData stored) < 2 ^ 53"
    and "c \<in> set (getStoredCourses coursesData stored)"
  shows "Id' c < Id' (fst (create coursesData stored course))"
proof -
  have "Id' c \<le> foldl (\<lambda>m c. max m (Id' c)) 0 (getStoredCourses coursesData stored)"
    using assms(2) by (rule maxId_upper)
  then show ?thesis by (simp add: create_Id_exact[OF assms(1)])
qed

lemma create_distinct:
  assumes "distinct (map Id' (getStoredCourses coursesData stored))"
    and "foldl (\<lambda>m c. max m (Id' c)) 0 (getStoredCourses coursesData stored) < 2 ^ 53"
  shows "distinct (map Id' (getStoredCourses coursesData (snd (create coursesData stored course))))"
proof -
  have "Id' (fst (create coursesData stored course)) \<notin> Id' ` set (getStoredCourses coursesData stored)"
    using create_fresh[OF assms(2), of _ course] by force
  then show ?thesis using assms(1) by (simp add: create_stored)
qed

lemma delete_stored:
  "getStoredCourses coursesData (snd (delete coursesData stored id')) =
     filter (\<lambda>c. Some (Id' c) \<noteq> parseInt id') (getStoredCourses coursesData stored)"
  by (simp add: delete_def Let_def saveCourses_def getStoredCourses_def)

lemma delete_distinct:
  assumes "distinct (map Id' (getStoredCourses coursesData stored))"
  shows "distinct (map Id' (getStoredCourses coursesData (snd (delete coursesData stored id'))))"
  using assms by (simp add: delete_stored distinct_map_filter)

lemma update_found:
  assumes "findIndex (\<lambda>c. Some (Id' c) = parseInt id') (getStoredCourses coursesData stored) = Some i"
  shows "update coursesData stored id' data =
     (Some (spread (getStoredCourses coursesData stored ! i) data),
      Some ((getStoredCourses coursesData stored)[i := spread (getStoredCourses coursesData stored ! i) data]))"
proof -
  have "i < length (getStoredCourses coursesData stored)"
    using findIndex_Some[OF assms] by simp
  then show ?thesis using assms by (simp add: update_def Let_def saveCourses_def)
qed

lemma update_not_found:
  assumes "findIndex (\<lambda>c. Some (Id' c) = parseInt id') (getStoredCourses coursesData stored) = None"
  shows "update coursesData stored id' data = (None, stored)"
  using assms by (simp add: update_def)

lemma distinct_replace:
  assumes "distinct xs" and "i < length xs" and "v \<notin> set (take i xs @ drop (Suc i) xs)"
  shows "distinct (xs[i := v])"
proof -
  have "distinct (take i xs @ xs ! i # drop (Suc i) xs)"
    using assms(1,2) by (simp add: id_take_nth_drop[symmetric])
  then have "distinct (take i xs @ v # drop (Suc i) xs)"
    using assms(3) by auto
  then show ?thesis using assms(2) by (simp add: upd_conv_take_nth_drop)
qed

lemma update_distinct:
  assumes "distinct (map Id' (getStoredCourses coursesData stored))"
    and "okStep (getStoredCourses coursesData stored) (Update id' data)"
  shows "distinct (map Id' (getStoredCourses coursesData (snd (update coursesData stored id' data))))"
proof (cases "findIndex (\<lambda>c. Some (Id' c) = parseInt id') (getStoredCourses coursesData stored)")
  case None
  then show ?thesis using assms(1) by (simp add: update_not_found)
next
  case (Some i)
  let ?cs = "getStoredCourses coursesData stored"
  have i: "i < length ?cs" using findIndex_Some[OF Some] by simp
  have stored: "getStoredCourses coursesData (snd (update coursesData stored id' data)) =
      ?cs[i := spread (?cs ! i) data]"
    by (simp add: update_found[OF Some] getStoredCourses_def)
  have ids: "map Id' (?cs[i := spread (?cs ! i) data]) = (map Id' ?cs)[i := Id' (spread (?cs ! i) data)]"
    by (simp add: map_update)
  show ?thesis
  proof (cases "dataId data")
    case None
    then have "Id' (spread (?cs ! i) data) = map Id' ?cs ! i"
      using i by (simp add: spread_def)
    then show ?thesis using assms(1) by (simp add: stored ids)
  next
    case (Some v)
    then have v: "Id' (spread (?cs ! i) data) = v" by (simp add: spread_def)
    from assms(2) Some \<open>findIndex _ _ = Some i\<close>
    have "v \<notin> set (take i (map Id' ?cs) @ drop (Suc i) (map Id' ?cs))"
      by (simp add: okStep_def take_map drop_map)
    then have "distinct ((map Id' ?cs)[i := v])"
      using assms(1) i by (intro distinct_replace) simp_all
    then show ?thesis by (simp add: stored ids v)
  qed
qed

lemma perform_distinct:
  assumes "distinct (map Id' (getStoredCourses coursesData stored))"
    and "okStep (getStoredCourses coursesData stored) op"
  shows "distinct (map Id' (getStoredCourses coursesData (perform coursesData stored op)))"
proof (cases op)
  case GetAll
  then show ?thesis using assms(1) by (simp add: perform_def getAll_def)
next
  case (GetById x)
  then show ?thesis using assms(1) by (simp add: perform_def getById_def Let_def)
next
  case (Create d)
  with assms(2) have "foldl (\<lambda>m c. max m (Id' c)) 0 (getStoredCourses coursesData stored) < 2 ^ 53"
    by (simp add: okStep_def)
  from create_distinct[OF assms(1) this] Create show ?thesis by (simp add: perform_def)
next
  case (Update x d)
  with update_distinct[OF assms(1), of x d] assms(2) show ?thesis by (simp add: perform_def)
next
  case (Delete x)
  then show ?thesis using delete_distinct[OF assms(1)] by (simp add: perform_def)
qed

subsection \<open>Unique Ids\<close>

text \<open>
  C3, as the code has it. From a stored collection whose Ids are pairwise different,
  a sequence of calls leaves the Ids pairwise different when every \<^verbatim>\<open>create\<close> in it is
  made while the largest stored Id is below \<open>2\<^sup>5\<^sup>3\<close>, and every \<^verbatim>\<open>update\<close> in it
  either names no \<^verbatim>\<open>Id\<close> or names one that no other stored record has.
\<close>

theorem C3_unique_Ids:
  assumes "distinct (map Id' (getStoredCourses coursesData stored))"
    and "okRun coursesData stored ops"
  shows "distinct (map Id' (getStoredCourses coursesData (performAll coursesData stored ops)))"
  using assms
proof (induction ops arbitrary: stored)
  case Nil
  then show ?case by simp
next
  case (Cons op ops)
  from Cons.prems have "distinct (map Id' (getStoredCourses coursesData (perform coursesData stored op)))"
    by (intro perform_distinct) simp_all
  with Cons show ?case by simp
qed

text \<open>
  C3 on a run of all five operations from two stored courses, with an update that gives
  the first course the unused Id 5.
\<close>

theorem C3_witness:
  "map Id' (getStoredCourses []
     (performAll [] (Some [cs101, math201])
        [Create physData, Update ''2'' renameData, Update ''1'' freshIdData, Delete ''2'',
         GetAll, GetById ''3''])) = [5, 3]
   \<and> distinct (map Id' (getStoredCourses []
     (performAll [] (Some [cs101, math201])
        [Create physData, Update ''2'' renameData, Update ''1'' freshIdData, Delete ''2'',
         GetAll, GetById ''3''])))"
proof -
  have d: "distinct (map Id' (getStoredCourses [] (Some [cs101, math201])))"
    by (simp add: getStoredCourses_def cs101_def math201_def)
  have ok: "okRun [] (Some [cs101, math201])
      [Create physData, Update ''2'' renameData, Update ''1'' freshIdData, Delete ''2'',
       GetAll, GetById ''3'']"
    by (simp add: okStep_def isDouble_def perform_def getStoredCourses_def saveCourses_def
        create_def update_def delete_def getAll_def getById_def spread_def nearestDouble_def Let_def
        cs101_def math201_def physData_def renameData_def freshIdData_def parse_defs)
  have run: "map Id' (getStoredCourses []
     (performAll [] (Some [cs101, math201])
        [Create physData, Update ''2'' renameData, Update ''1'' freshIdData, Delete ''2'',
         GetAll, GetById ''3''])) = [5, 3]"
    by (simp add: perform_def getStoredCourses_def saveCourses_def create_def
        update_def delete_def getAll_def getById_def spread_def nearestDouble_def Let_def
        cs101_def math201_def physData_def renameData_def freshIdData_def parse_defs)
  from C3_unique_Ids[OF d ok] run show ?thesis by simp
qed

text \<open>
  C3 as stated fails: \<^verbatim>\<open>update("1", {Id: 2})\<close> on the courses with Ids 1 and 2 stores
  two records with Id 2, since the merge lets the data overwrite \<^verbatim>\<open>Id\<close>.
\<close>

theorem C3_counterexample:
  "distinct (map Id' (getStoredCourses [] (Some [cs101, math201])))
   \<and> map Id' (getStoredCourses []
        (snd (update [] (Some [cs101, math201]) ''1'' renumberData))) = [2, 2]"
  by (simp add: getStoredCourses_def saveCourses_def update_def spread_def
      cs101_def math201_def renumberData_def parse_defs)

subsection \<open>The Id that create assigns\<close>

lemma createAll_increasing:
  "foldl (\<lambda>m c. max m (Id' c)) 0 (getStoredCourses coursesData stored) + int (length ds) \<le> 2 ^ 53 \<Longrightarrow>
   createAll coursesData stored ds = (created, stored') \<Longrightarrow>
     sorted_wrt (<) (map Id' created) \<and>
     (\<forall>r\<in>set created. \<forall>c\<in>set (getStoredCourses coursesData stored). Id' c < Id' r)"
proof (induction ds arbitrary: stored created stored')
  case Nil
  then show ?case by simp
next
  case (Cons d ds)
  let ?M = "foldl (\<lambda>m c. max m (Id' c)) 0 (getStoredCourses coursesData stored)"
  obtain c st1 where c: "create coursesData stored d = (c, st1)" by (cases "create coursesData stored d")
  obtain cs st2 where cs: "createAll coursesData st1 ds = (cs, st2)" by (cases "createAll coursesData st1 ds")
  from Cons.prems(2) c cs have created: "created = c # cs" by simp
  have small: "?M < 2 ^ 53" using Cons.prems(1) by simp
  have st1: "getStoredCourses coursesData st1 = getStoredCourses coursesData stored @ [c]"
    using create_stored[of coursesData stored d] c by simp
  have idc: "Id' c = ?M + 1"
    using create_Id_exact[OF small, of d] c by simp
  have fresh: "\<forall>x\<in>set (getStoredCourses coursesData stored). Id' x < Id' c"
    using create_fresh[OF small, of _ d] c by simp
  have "foldl (\<lambda>m c. max m (Id' c)) 0 (getStoredCourses coursesData st1) = ?M + 1"
    unfolding st1 maxId_snoc idc by simp
  then have "foldl (\<lambda>m c. max m (Id' c)) 0 (getStoredCourses coursesData st1) + int (length ds) \<le> 2 ^ 53"
    using Cons.prems(1) by simp
  from Cons.IH[OF this cs] st1
  have ih: "sorted_wrt (<) (map Id' cs)"
    "\<forall>r\<in>set cs. Id' c < Id' r"
    "\<forall>r\<in>set cs. \<forall>x\<in>set (getStoredCourses coursesData stored). Id' x < Id' r"
    by auto
  show ?case using created ih fresh by simp
qed

text \<open>
  C4, as the code has it. When every stored Id is positive and below \<open>2\<^sup>5\<^sup>3\<close>,
  \<^verbatim>\<open>create\<close> returns a record whose Id is the largest stored Id plus 1, or 1 for an
  empty collection, whatever the argument (whether or not it names an Id). In a run of
  \<^verbatim>\<open>create\<close> calls that does not take the Ids beyond \<open>2\<^sup>5\<^sup>3\<close>, the returned Ids
  increase strictly, and each is larger than every Id stored before the run.
\<close>

theorem C4_create_Id:
  assumes "\<forall>c\<in>set (getStoredCourses coursesData stored). 0 < Id' c \<and> Id' c < 2 ^ 53"
  shows "Id' (fst (create coursesData stored course)) =
           (if getStoredCourses coursesData stored = [] then 1
            else Max (Id' ` set (getStoredCourses coursesData stored)) + 1)
         \<and> ((\<forall>c\<in>set (getStoredCourses coursesData stored). Id' c + int (length ds) \<le> 2 ^ 53)
              \<and> int (length ds) \<le> 2 ^ 53 \<longrightarrow>
            sorted_wrt (<) (map Id' (fst (createAll coursesData stored ds)))
            \<and> (\<forall>r\<in>set (fst (createAll coursesData stored ds)).
                  \<forall>c\<in>set (getStoredCourses coursesData stored). Id' c < Id' r))"
proof -
  let ?cs = "getStoredCourses coursesData stored"
  let ?M = "foldl (\<lambda>m c. max m (Id' c)) 0 ?cs"
  have mem: "?M \<in> insert 0 (Id' ` set ?cs)" by (rule maxId_mem)
  have small: "?M < 2 ^ 53" using mem assms by auto
  have one: "Id' (fst (create coursesData stored course)) =
           (if ?cs = [] then 1 else Max (Id' ` set ?cs) + 1)"
  proof (cases "?cs = []")
    case True
    then show ?thesis by (simp add: create_unfold nearestDouble_small)
  next
    case False
    have "\<forall>c\<in>set ?cs. 0 < Id' c" using assms by simp
    from maxId_positive[OF False this] False show ?thesis
      by (simp add: create_Id_exact[OF small])
  qed
  have run: "sorted_wrt (<) (map Id' (fst (createAll coursesData stored ds)))
            \<and> (\<forall>r\<in>set (fst (createAll coursesData stored ds)). \<forall>c\<in>set ?cs. Id' c < Id' r)"
    if "\<forall>c\<in>set ?cs. Id' c + int (length ds) \<le> 2 ^ 53" and "int (length ds) \<le> 2 ^ 53"
  proof -
    have "?M + int (length ds) \<le> 2 ^ 53" using mem that by auto
    from createAll_increasing[OF this, of "fst (createAll coursesData stored ds)"
        "snd (createAll coursesData stored ds)"]
    show ?thesis by simp
  qed
  show ?thesis using one run by blast
qed

text \<open>
  C4 on two stored courses (Ids 1 and 2) and on the empty collection, with an argument
  that names the Id 7.
\<close>

theorem C4_witness:
  "Id' (fst (create [] (Some [cs101, math201]) physData)) = 3
   \<and> Id' (fst (create [] (Some []) physData)) = 1
   \<and> map Id' (fst (createAll [] (Some [cs101, math201]) [physData, renameData])) = [3, 4]
   \<and> sorted_wrt (<) (map Id' (fst (createAll [] (Some [cs101, math201]) [physData, renameData])))"
proof -
  have p: "\<forall>c\<in>set (getStoredCourses [] (Some [cs101, math201])). 0 < Id' c \<and> Id' c < 2 ^ 53"
    by (simp add: getStoredCourses_def cs101_def math201_def)
  have q: "\<forall>c\<in>set (getStoredCourses [] (Some [])). 0 < Id' c \<and> Id' c < 2 ^ 53"
    by (simp add: getStoredCourses_def)
  have b: "(\<forall>c\<in>set (getStoredCourses [] (Some [cs101, math201])).
        Id' c + int (length [physData, renameData]) \<le> 2 ^ 53)
      \<and> int (length [physData, renameData]) \<le> 2 ^ 53"
    by (simp add: getStoredCourses_def cs101_def math201_def)
  have run: "map Id' (fst (createAll [] (Some [cs101, math201]) [physData, renameData])) = [3, 4]"
    by (simp add: create_def getStoredCourses_def saveCourses_def nearestDouble_def Let_def
        cs101_def math201_def)
  from C4_create_Id[OF p, of physData "[physData, renameData]"] b
  have "Id' (fst (create [] (Some [cs101, math201]) physData)) =
      Max (Id' ` set (getStoredCourses [] (Some [cs101, math201]))) + 1"
    and "sorted_wrt (<) (map Id' (fst (createAll [] (Some [cs101, math201]) [physData, renameData])))"
    by (simp_all add: getStoredCourses_def)
  moreover from C4_create_Id[OF q, of physData "[]"]
  have "Id' (fst (create [] (Some []) physData)) = 1"
    by (simp add: getStoredCourses_def)
  ultimately show ?thesis
    using run by (simp add: getStoredCourses_def cs101_def math201_def)
qed

text \<open>
  C4 as stated fails at a positive Id: with the stored Id \<open>2\<^sup>5\<^sup>3\<close> the sum
  \<^verbatim>\<open>maxId + 1\<close> is rounded back to \<open>2\<^sup>5\<^sup>3\<close>, and \<^verbatim>\<open>create\<close> returns the Id that is
  already stored.
\<close>

theorem C4_counterexample:
  "0 < Id' hugeCourse
   \<and> Max (Id' ` set (getStoredCourses [] (Some [hugeCourse]))) + 1 = 9007199254740993
   \<and> Id' (fst (create [] (Some [hugeCourse]) physData)) = 9007199254740992
   \<and> Id' (fst (create [] (Some [hugeCourse]) physData)) = Id' hugeCourse"
  by (simp add: create_def getStoredCourses_def saveCourses_def hugeCourse_def nearestDouble_def
      Let_def nearest_def ulp_def ilog2_def pow2_def roundHalfEven_def bitLength.simps
      floor_rat_numeral)

subsection \<open>getById\<close>

text \<open>
  C5, as the code has it. When \<^verbatim>\<open>parseInt(id)\<close> is \<^verbatim>\<open>NaN\<close> (the id has no digit
  where the integer is expected), \<^verbatim>\<open>getById\<close> returns \<^verbatim>\<open>null\<close>, whatever is stored,
  and changes nothing. The model has no failing branch: the operation always returns.
\<close>

theorem C5_getById_NaN:
  assumes "parseInt id' = None"
  shows "getById coursesData stored id' = (None, stored)"
  using assms by (simp add: getById_def Let_def find_None_iff)

text \<open>C5 on the id \<^verbatim>\<open>"abc"\<close>.\<close>

theorem C5_witness:
  "parseInt ''abc'' = None
   \<and> getById [] (Some [cs101, math201]) ''abc'' = (None, Some [cs101, math201])"
proof -
  have n: "parseInt ''abc'' = None" by (simp add: parse_defs)
  show ?thesis using C5_getById_NaN[OF n] n by simp
qed

text \<open>
  C5 as stated fails: the id \<^verbatim>\<open>"1abc"\<close> is not a number, yet \<^verbatim>\<open>parseInt\<close> reads its
  leading digits, and \<^verbatim>\<open>getById\<close> returns the course with Id 1.
\<close>

theorem C5_counterexample:
  "parseInt ''1abc'' = Some 1
   \<and> getById [] (Some [cs101, math201]) ''1abc'' = (Some cs101, Some [cs101, math201])"
  by (simp add: getStoredCourses_def getById_def cs101_def math201_def parse_defs)
subsection \<open>update\<close>

text \<open>
  C6. When \<^verbatim>\<open>update\<close> locates a record (the first one whose Id is the parsed id), the
  stored collection keeps its length and every other record; in the located record each
  property the data names takes the data's value and each property it does not name
  keeps its value; the result is the merged record.
\<close>

theorem C6_update_frame:
  assumes "findIndex (\<lambda>c. Some (Id' c) = parseInt id') (getStoredCourses coursesData stored) = Some i"
  shows "let old = getStoredCourses coursesData stored;
             new = getStoredCourses coursesData (snd (update coursesData stored id' data))
         in fst (update coursesData stored id' data) = Some (new ! i)
          \<and> length new = length old
          \<and> (\<forall>j<length old. j \<noteq> i \<longrightarrow> new ! j = old ! j)
          \<and> Id' (new ! i) = (case dataId data of None \<Rightarrow> Id' (old ! i) | Some v \<Rightarrow> v)
          \<and> gradeCategories (new ! i) =
              (case dataGradeCategories data of None \<Rightarrow> gradeCategories (old ! i) | Some g \<Rightarrow> g)
          \<and> (\<forall>k. props (new ! i) k =
              (case dataProps data k of None \<Rightarrow> props (old ! i) k | Some v \<Rightarrow> Some v))"
proof -
  let ?old = "getStoredCourses coursesData stored"
  let ?new = "?old[i := spread (?old ! i) data]"
  have i: "i < length ?old" using findIndex_Some[OF assms] by simp
  have new: "getStoredCourses coursesData (snd (update coursesData stored id' data)) = ?new"
    by (simp add: update_found[OF assms] getStoredCourses_def)
  have at: "?new ! i = spread (?old ! i) data" using i by simp
  have res: "fst (update coursesData stored id' data) = Some (?new ! i)"
    by (simp add: update_found[OF assms] at)
  have others: "\<forall>j<length ?old. j \<noteq> i \<longrightarrow> ?new ! j = ?old ! j" by simp
  have ident: "Id' (?new ! i) = (case dataId data of None \<Rightarrow> Id' (?old ! i) | Some v \<Rightarrow> v)"
    unfolding at by (simp add: spread_def)
  have cats: "gradeCategories (?new ! i) =
      (case dataGradeCategories data of None \<Rightarrow> gradeCategories (?old ! i) | Some g \<Rightarrow> g)"
    unfolding at by (simp add: spread_def)
  have rest: "\<forall>k. props (?new ! i) k =
      (case dataProps data k of None \<Rightarrow> props (?old ! i) k | Some v \<Rightarrow> Some v)"
    unfolding at by (simp add: spread_def map_add_def)
  have len: "length ?new = length ?old" by simp
  show ?thesis
    unfolding Let_def new using res len others ident cats rest by blast
qed

text \<open>C6 on renaming the course with Id 2: its code changes, its Id and colour stay.\<close>

theorem C6_witness:
  "Id' (getStoredCourses [] (snd (update [] (Some [cs101, math201]) ''2'' renameData)) ! 1) = 2
   \<and> props (getStoredCourses [] (snd (update [] (Some [cs101, math201]) ''2'' renameData)) ! 1)
        ''code'' = Some (JStr ''MATH202'')
   \<and> props (getStoredCourses [] (snd (update [] (Some [cs101, math201]) ''2'' renameData)) ! 1)
        ''color'' = Some (JStr ''#2563eb'')
   \<and> getStoredCourses [] (snd (update [] (Some [cs101, math201]) ''2'' renameData)) ! 0 = cs101"
proof -
  have old: "getStoredCourses [] (Some [cs101, math201]) = [cs101, math201]"
    by (simp add: getStoredCourses_def)
  have f: "findIndex (\<lambda>c. Some (Id' c) = parseInt ''2'') (getStoredCourses [] (Some [cs101, math201])) = Some 1"
    unfolding old by (simp add: cs101_def math201_def parse_defs)
  have d: "dataId renameData = None" "dataProps renameData ''code'' = Some (JStr ''MATH202'')"
    "dataProps renameData ''color'' = None"
    by (simp_all add: renameData_def)
  have m: "Id' math201 = 2" "props math201 ''color'' = Some (JStr ''#2563eb'')"
    by (simp_all add: math201_def)
  from C6_update_frame[OF f, of renameData] show ?thesis
    unfolding Let_def old by (simp add: d m)
qed

text \<open>
  C7. When no stored Id equals the parsed id, \<^verbatim>\<open>update\<close> returns \<^verbatim>\<open>null\<close> and the
  slot is left as it was (nothing is written). When some stored Id equals it, the first
  such record is merged with the data as a whole: the result and the stored record have
  the data's Id and \<^verbatim>\<open>gradeCategories\<close> where the data names them and the record's
  otherwise, and every other property from the data where it names one and from the
  record otherwise; the slot holds the collection with exactly that record replaced.
\<close>

theorem C7_update_all_or_nothing:
  "((\<forall>c\<in>set (getStoredCourses coursesData stored). Some (Id' c) \<noteq> parseInt id') \<longrightarrow>
      update coursesData stored id' data = (None, stored))
   \<and> ((\<exists>c\<in>set (getStoredCourses coursesData stored). Some (Id' c) = parseInt id') \<longrightarrow>
      (\<exists>i<length (getStoredCourses coursesData stored).
          Some (Id' (getStoredCourses coursesData stored ! i)) = parseInt id' \<and>
          (\<forall>j<i. Some (Id' (getStoredCourses coursesData stored ! j)) \<noteq> parseInt id') \<and>
          update coursesData stored id' data =
            (Some \<lparr>Id' = (case dataId data of
                            None \<Rightarrow> Id' (getStoredCourses coursesData stored ! i)
                          | Some v \<Rightarrow> v),
                   gradeCategories =
                     (case dataGradeCategories data of
                        None \<Rightarrow> gradeCategories (getStoredCourses coursesData stored ! i)
                      | Some g \<Rightarrow> g),
                   props = (\<lambda>k. case dataProps data k of
                              None \<Rightarrow> props (getStoredCourses coursesData stored ! i) k
                            | Some v \<Rightarrow> Some v)\<rparr>,
             Some ((getStoredCourses coursesData stored)
                [i := \<lparr>Id' = (case dataId data of
                                None \<Rightarrow> Id' (getStoredCourses coursesData stored ! i)
                              | Some v \<Rightarrow> v),
                       gradeCategories =
                         (case dataGradeCategories data of
                            None \<Rightarrow> gradeCategories (getStoredCourses coursesData stored ! i)
                          | Some g \<Rightarrow> g),
                       props = (\<lambda>k. case dataProps data k of
                                  None \<Rightarrow> props (getStoredCourses coursesData stored ! i) k
                                | Some v \<Rightarrow> Some v)\<rparr>]))))"
proof (intro conjI impI)
  assume "\<forall>c\<in>set (getStoredCourses coursesData stored). Some (Id' c) \<noteq> parseInt id'"
  then have "findIndex (\<lambda>c. Some (Id' c) = parseInt id') (getStoredCourses coursesData stored) = None"
    by (simp add: findIndex_None)
  then show "update coursesData stored id' data = (None, stored)" by (rule update_not_found)
next
  let ?cs = "getStoredCourses coursesData stored"
  assume "\<exists>c\<in>set ?cs. Some (Id' c) = parseInt id'"
  then have "findIndex (\<lambda>c. Some (Id' c) = parseInt id') ?cs \<noteq> None"
    by (simp add: findIndex_None)
  then obtain i where i: "findIndex (\<lambda>c. Some (Id' c) = parseInt id') ?cs = Some i"
    by auto
  have merged: "spread (?cs ! i) data =
      \<lparr>Id' = (case dataId data of None \<Rightarrow> Id' (?cs ! i) | Some v \<Rightarrow> v),
       gradeCategories =
         (case dataGradeCategories data of None \<Rightarrow> gradeCategories (?cs ! i) | Some g \<Rightarrow> g),
       props = (\<lambda>k. case dataProps data k of None \<Rightarrow> props (?cs ! i) k | Some v \<Rightarrow> Some v)\<rparr>"
    by (simp add: spread_def map_add_def)
  from findIndex_Some[OF i]
  have "i < length ?cs" "Some (Id' (?cs ! i)) = parseInt id'"
    "\<forall>j<i. Some (Id' (?cs ! j)) \<noteq> parseInt id'"
    by auto
  moreover note update_found[OF i, of data, unfolded merged]
  ultimately show "\<exists>i<length ?cs.
          Some (Id' (?cs ! i)) = parseInt id' \<and>
          (\<forall>j<i. Some (Id' (?cs ! j)) \<noteq> parseInt id') \<and>
          update coursesData stored id' data =
            (Some \<lparr>Id' = (case dataId data of None \<Rightarrow> Id' (?cs ! i) | Some v \<Rightarrow> v),
                   gradeCategories =
                     (case dataGradeCategories data of
                        None \<Rightarrow> gradeCategories (?cs ! i) | Some g \<Rightarrow> g),
                   props = (\<lambda>k. case dataProps data k of
                              None \<Rightarrow> props (?cs ! i) k | Some v \<Rightarrow> Some v)\<rparr>,
             Some (?cs
                [i := \<lparr>Id' = (case dataId data of None \<Rightarrow> Id' (?cs ! i) | Some v \<Rightarrow> v),
                       gradeCategories =
                         (case dataGradeCategories data of
                            None \<Rightarrow> gradeCategories (?cs ! i) | Some g \<Rightarrow> g),
                       props = (\<lambda>k. case dataProps data k of
                                  None \<Rightarrow> props (?cs ! i) k | Some v \<Rightarrow> Some v)\<rparr>]))"
    by blast
qed

text \<open>
  C7 on an id that matches nothing, and on the id of the second course: the code of
  that course is the new one in the result and in the slot, its colour and Id are kept,
  and the first course is untouched.
\<close>

theorem C7_witness:
  "update [] (Some [cs101, math201]) ''abc'' renameData = (None, Some [cs101, math201])
   \<and> map_option (\<lambda>c. (Id' c, props c ''code'', props c ''color''))
        (fst (update [] (Some [cs101, math201]) ''2'' renameData)) =
      Some (2, Some (JStr ''MATH202''), Some (JStr ''#2563eb''))
   \<and> map (\<lambda>c. (Id' c, props c ''code''))
        (getStoredCourses [] (snd (update [] (Some [cs101, math201]) ''2'' renameData))) =
      [(1, Some (JStr ''CS101'')), (2, Some (JStr ''MATH202''))]"
proof -
  have old: "getStoredCourses [] (Some [cs101, math201]) = [cs101, math201]"
    by (simp add: getStoredCourses_def)
  have n: "parseInt ''abc'' = None" by (simp add: parse_defs)
  have a: "\<forall>c\<in>set (getStoredCourses [] (Some [cs101, math201])). Some (Id' c) \<noteq> parseInt ''abc''"
    by (simp add: n)
  have p2: "parseInt ''2'' = Some 2" by (simp add: parse_defs)
  have ids: "Id' cs101 = 1" "Id' math201 = 2" by (simp_all add: cs101_def math201_def)
  have b: "\<exists>c\<in>set (getStoredCourses [] (Some [cs101, math201])). Some (Id' c) = parseInt ''2''"
    by (simp add: old p2 ids)
  have d: "dataId renameData = None" "dataGradeCategories renameData = None"
    "dataProps renameData ''code'' = Some (JStr ''MATH202'')"
    "dataProps renameData ''color'' = None"
    by (simp_all add: renameData_def)
  have m: "props math201 ''color'' = Some (JStr ''#2563eb'')"
    "props cs101 ''code'' = Some (JStr ''CS101'')"
    by (simp_all add: math201_def cs101_def)
  from C7_update_all_or_nothing[of "[]" "Some [cs101, math201]" "''abc''" renameData] a
  have first: "update [] (Some [cs101, math201]) ''abc'' renameData = (None, Some [cs101, math201])"
    by blast
  from C7_update_all_or_nothing[of "[]" "Some [cs101, math201]" "''2''" renameData] b
  obtain i where i: "i < length [cs101, math201]"
      "Some (Id' ([cs101, math201] ! i)) = parseInt ''2''"
      "update [] (Some [cs101, math201]) ''2'' renameData =
         (Some \<lparr>Id' = (case dataId renameData of None \<Rightarrow> Id' ([cs101, math201] ! i) | Some v \<Rightarrow> v),
                gradeCategories =
                  (case dataGradeCategories renameData of
                     None \<Rightarrow> gradeCategories ([cs101, math201] ! i) | Some g \<Rightarrow> g),
                props = (\<lambda>k. case dataProps renameData k of
                           None \<Rightarrow> props ([cs101, math201] ! i) k | Some v \<Rightarrow> Some v)\<rparr>,
          Some ([cs101, math201]
             [i := \<lparr>Id' = (case dataId renameData of
                             None \<Rightarrow> Id' ([cs101, math201] ! i) | Some v \<Rightarrow> v),
                    gradeCategories =
                      (case dataGradeCategories renameData of
                         None \<Rightarrow> gradeCategories ([cs101, math201] ! i) | Some g \<Rightarrow> g),
                    props = (\<lambda>k. case dataProps renameData k of
                               None \<Rightarrow> props ([cs101, math201] ! i) k | Some v \<Rightarrow> Some v)\<rparr>]))"
    unfolding old by blast
  from i(1,2) have "i = 1"
    unfolding p2 by (cases i) (simp_all add: ids)
  with i(3) have second:
    "map_option (\<lambda>c. (Id' c, props c ''code'', props c ''color''))
        (fst (update [] (Some [cs101, math201]) ''2'' renameData)) =
      Some (2, Some (JStr ''MATH202''), Some (JStr ''#2563eb''))"
    "map (\<lambda>c. (Id' c, props c ''code''))
        (getStoredCourses [] (snd (update [] (Some [cs101, math201]) ''2'' renameData))) =
      [(1, Some (JStr ''CS101'')), (2, Some (JStr ''MATH202''))]"
    by (simp_all add: getStoredCourses_def d m ids)
  show ?thesis using first second by simp
qed

subsection \<open>delete\<close>

text \<open>
  C8. \<^verbatim>\<open>delete\<close> returns \<^verbatim>\<open>true\<close> for every id; afterwards the stored collection is
  the former one without the records whose Id equals the parsed id; a second
  \<^verbatim>\<open>delete\<close> of the same id returns \<^verbatim>\<open>true\<close> again and leaves the slot as the first
  call left it.
\<close>

theorem C8_delete:
  "fst (delete coursesData stored id') = True
   \<and> getStoredCourses coursesData (snd (delete coursesData stored id')) =
       filter (\<lambda>c. Some (Id' c) \<noteq> parseInt id') (getStoredCourses coursesData stored)
   \<and> delete coursesData (snd (delete coursesData stored id')) id' =
       (True, snd (delete coursesData stored id'))"
  by (simp add: delete_def Let_def saveCourses_def getStoredCourses_def)

subsection \<open>create, then getById\<close>

text \<open>
  C9, as the code has it. When every stored Id is below \<open>2\<^sup>5\<^sup>3\<close>, \<^verbatim>\<open>getById\<close> of
  the Id that \<^verbatim>\<open>create(c)\<close> has just assigned returns the created record: its Id is the
  assigned one, its \<^verbatim>\<open>gradeCategories\<close> is that of \<open>c\<close>, or the empty list when \<open>c\<close>
  has none or \<^verbatim>\<open>null\<close>, and every other property is that of \<open>c\<close>. The slot is as
  \<^verbatim>\<open>create\<close> left it.
\<close>

theorem C9_create_getById:
  assumes "\<forall>c\<in>set (getStoredCourses coursesData stored). Id' c < 2 ^ 53"
  shows "\<exists>s. Number_toString (Id' (fst (create coursesData stored course))) = Some s
          \<and> getById coursesData (snd (create coursesData stored course)) s =
              (Some \<lparr>Id' = Id' (fst (create coursesData stored course)),
                     gradeCategories =
                       Some (case dataGradeCategories course of
                               None \<Rightarrow> [] | Some None \<Rightarrow> [] | Some (Some cats) \<Rightarrow> cats),
                     props = dataProps course\<rparr>,
               snd (create coursesData stored course))"
proof -
  let ?cs = "getStoredCourses coursesData stored"
  let ?M = "foldl (\<lambda>m c. max m (Id' c)) 0 ?cs"
  let ?new = "fst (create coursesData stored course)"
  let ?st = "snd (create coursesData stored course)"
  have "?M \<in> insert 0 (Id' ` set ?cs)" by (rule maxId_mem)
  then have small: "?M < 2 ^ 53" using assms by auto
  have low: "0 \<le> ?M" by (rule maxId_lower)
  have newId: "Id' ?new = ?M + 1" by (rule create_Id_exact[OF small])
  then have "\<bar>Id' ?new\<bar> \<le> 2 ^ 53" using small low by simp
  then obtain s where s: "Number_toString (Id' ?new) = Some s"
    using Number_toString_small by blast
  have none: "find (\<lambda>c. Id' c = Id' ?new) ?cs = None"
    using create_fresh[OF small, of _ course] by (force simp: find_None_iff)
  have "find (\<lambda>c. Some (Id' c) = parseInt s) (getStoredCourses coursesData ?st) = Some ?new"
    by (simp add: parseInt_Number_toString[OF s] create_stored find_append none)
  then have got: "getById coursesData ?st s = (Some ?new, ?st)"
    by (simp add: getById_def Let_def)
  have "?new =
     \<lparr>Id' = Id' ?new,
      gradeCategories =
        Some (case dataGradeCategories course of
                None \<Rightarrow> [] | Some None \<Rightarrow> [] | Some (Some cats) \<Rightarrow> cats),
      props = dataProps course\<rparr>"
    by (simp add: create_unfold split: option.splits)
  with got s show ?thesis by metis
qed

text \<open>
  C9 on two stored courses: the new course gets the Id 3, and \<^verbatim>\<open>getById(3)\<close> returns
  it with its code and an empty list of grade categories.
\<close>

theorem C9_witness:
  "Number_toString (Id' (fst (create [] (Some [cs101, math201]) physData))) = Some ''3''
   \<and> map_option (\<lambda>c. (Id' c, gradeCategories c, props c ''code''))
        (fst (getById [] (snd (create [] (Some [cs101, math201]) physData)) ''3'')) =
      Some (3, Some [], Some (JStr ''PHYS110''))"
proof -
  have p: "\<forall>c\<in>set (getStoredCourses [] (Some [cs101, math201])). Id' c < 2 ^ 53"
    by (simp add: getStoredCourses_def cs101_def math201_def)
  have newId: "Id' (fst (create [] (Some [cs101, math201]) physData)) = 3"
    by (simp add: create_unfold getStoredCourses_def nearestDouble_def cs101_def math201_def)
  have str: "Number_toString 3 = Some ''3''"
    by (simp add: Number_toString_def digitsOf.simps digitChar_def char_of_def bit_iff_odd)
  have d: "dataGradeCategories physData = None" "dataProps physData ''code'' = Some (JStr ''PHYS110'')"
    by (simp_all add: physData_def)
  from C9_create_getById[OF p, of physData] show ?thesis
    unfolding newId str by (simp add: d)
qed

text \<open>
  C9 as stated fails when the stored Id is \<open>2\<^sup>5\<^sup>3\<close>: \<^verbatim>\<open>create\<close> assigns \<open>2\<^sup>5\<^sup>3\<close> again,
  and \<^verbatim>\<open>getById\<close> of that Id returns the older record, not the created one.
\<close>

theorem C9_counterexample:
  "Number_toString (Id' (fst (create [] (Some [hugeCourse]) physData))) =
      Some ''9007199254740992''
   \<and> fst (getById [] (snd (create [] (Some [hugeCourse]) physData)) ''9007199254740992'') =
      Some hugeCourse
   \<and> props hugeCourse ''code'' = Some (JStr ''OLD100'')
   \<and> props (fst (create [] (Some [hugeCourse]) physData)) ''code'' = Some (JStr ''PHYS110'')"
proof -
  have newId: "Id' (fst (create [] (Some [hugeCourse]) physData)) = 9007199254740992"
    by (simp add: create_unfold getStoredCourses_def hugeCourse_def nearestDouble_def
        nearest_def ulp_def ilog2_def pow2_def roundHalfEven_def bitLength.simps floor_rat_numeral)
  have str: "Number_toString 9007199254740992 = Some ''9007199254740992''"
    by (simp add: Number_toString_def digitsOf.simps digitChar_def char_of_def bit_iff_odd)
  have p: "parseInt ''9007199254740992'' = Some 9007199254740992"
    by (simp add: parse_defs)
  have h: "Id' hugeCourse = 9007199254740992" "props hugeCourse ''code'' = Some (JStr ''OLD100'')"
    by (simp_all add: hugeCourse_def)
  have got: "fst (getById [] (snd (create [] (Some [hugeCourse]) physData)) ''9007199254740992'') =
      Some hugeCourse"
  proof -
    have "getStoredCourses [] (snd (create [] (Some [hugeCourse]) physData)) =
        [hugeCourse, fst (create [] (Some [hugeCourse]) physData)]"
      by (simp add: create_stored) (simp add: getStoredCourses_def)
    then show ?thesis by (simp add: getById_def Let_def p h)
  qed
  have c: "props (fst (create [] (Some [hugeCourse]) physData)) ''code'' = Some (JStr ''PHYS110'')"
    by (simp add: create_unfold physData_def)
  show ?thesis using newId str got h c by simp
qed

end
